theory Spec2Isabelle
  imports Complex_Main
begin

section \<open>Python values\<close>

text \<open>
  The backend passes JSON-like dictionaries between its functions. A Python value is
  modelled by \<open>pyval\<close>; a \<open>dict\<close> is an association list with unique keys in
  insertion order, as Python dictionaries are. Python floats are idealised as exact
  rationals; a \<open>date\<close> is its proleptic ordinal (a day count).
\<close>

datatype pyval =
    PNone
  | PBool bool
  | PInt int
  | PFloat rat
  | PStr string
  | PDate int
  | PList "pyval list"
  | PDict "(string \<times> pyval) list"

type_synonym dict = "(string \<times> pyval) list"

datatype error =
    KeyError
  | TypeError
  | IndexError
  | ZeroDivisionError
  | OverflowError
  | ValueError string
  | JSONDecodeError
  | ValidationError
  | ExternalError
  | RetryError

text \<open>\<open>d.get(k)\<close>, \<open>d.get(k, default)\<close> and \<open>d[k] = v\<close> on a dictionary.\<close>

definition dict_get :: "dict \<Rightarrow> string \<Rightarrow> pyval option" where
  "dict_get d k = map_of d k"

definition dict_get_default :: "dict \<Rightarrow> string \<Rightarrow> pyval \<Rightarrow> pyval" where
  "dict_get_default d k dflt = (case map_of d k of None \<Rightarrow> dflt | Some v \<Rightarrow> v)"

fun dict_set :: "dict \<Rightarrow> string \<Rightarrow> pyval \<Rightarrow> dict" where
  "dict_set [] k v = [(k, v)]"
| "dict_set ((k', v') # d) k v = (if k' = k then (k, v) # d else (k', v') # dict_set d k v)"

section \<open>Trip model and date validation (models/trip.py, utils/validators.py)\<close>

datatype TripTheme =
  HERITAGE | ADVENTURE | NIGHTLIFE | CULTURAL | RELAXATION
  | FAMILY | BUSINESS | ROMANTIC | FOODIE | SHOPPING

datatype TransportMode = FLIGHT | TRAIN | BUS | CAR | TAXI | WALK | BIKE

datatype AccommodationType = HOTEL | HOSTEL | RESORT | HOMESTAY | AIRBNB | VILLA

record TripRequest =
  destination :: string
  start_date :: int
  end_date :: int
  budget :: rat
  travelers_count :: int
  themes :: "TripTheme list"
  accommodation_preference :: "AccommodationType option"
  transport_preference :: "TransportMode option"
  dietary_restrictions :: "string list option"
  special_requirements :: "string option"
  language_preference :: string
  include_flights :: bool
  flexible_dates :: bool

text \<open>
  \<open>validate_dates\<close> raises \<open>ValueError\<close> when \<open>start_date >= end_date\<close> and returns
  \<open>True\<close> otherwise.
\<close>

definition validate_dates :: "TripRequest \<Rightarrow> error + bool" where
  "validate_dates req =
     (if start_date req \<ge> end_date req
      then Inl (ValueError ''End date must be after start date'')
      else Inr True)"

text \<open>
  The duration that \<open>_structure_itinerary\<close> stores in the trip:
  \<open>(trip_request.end_date - trip_request.start_date).days + 1\<close>.
\<close>

definition structure_duration_days :: "TripRequest \<Rightarrow> int" where
  "structure_duration_days req = (end_date req - start_date req) + 1"

text \<open>
  The model classes declare typed fields and no validator. Constructing a \<open>TripRequest\<close>
  from keyword arguments fails when a required field is absent, fills the defaults of the
  optional ones and checks nothing else. An absent argument is \<open>None\<close>.
\<close>

record TripRequest_kwargs =
  kw_destination :: "string option"
  kw_start_date :: "int option"
  kw_end_date :: "int option"
  kw_budget :: "rat option"
  kw_travelers_count :: "int option"
  kw_themes :: "TripTheme list option"
  kw_accommodation_preference :: "AccommodationType option"
  kw_transport_preference :: "TransportMode option"
  kw_dietary_restrictions :: "string list option"
  kw_special_requirements :: "string option"
  kw_language_preference :: "string option"
  kw_include_flights :: "bool option"
  kw_flexible_dates :: "bool option"

definition or_default :: "'a option \<Rightarrow> 'a \<Rightarrow> 'a" where
  "or_default v dflt = (case v of None \<Rightarrow> dflt | Some x \<Rightarrow> x)"

definition TripRequest_init :: "TripRequest_kwargs \<Rightarrow> error + TripRequest" where
  "TripRequest_init kw =
     (case (kw_destination kw, kw_start_date kw, kw_end_date kw, kw_budget kw, kw_themes kw) of
        (Some d, Some s, Some e, Some b, Some ts) \<Rightarrow>
          Inr \<lparr>destination = d, start_date = s, end_date = e, budget = b,
               travelers_count = or_default (kw_travelers_count kw) 1,
               themes = ts,
               accommodation_preference = kw_accommodation_preference kw,
               transport_preference = kw_transport_preference kw,
               dietary_restrictions = kw_dietary_restrictions kw,
               special_requirements = kw_special_requirements kw,
               language_preference = or_default (kw_language_preference kw) ''en'',
               include_flights = or_default (kw_include_flights kw) True,
               flexible_dates = or_default (kw_flexible_dates kw) False\<rparr>
      | _ \<Rightarrow> Inl ValidationError)"

definition sample_kwargs :: TripRequest_kwargs where
  "sample_kwargs =
     \<lparr>kw_destination = Some ''Goa'', kw_start_date = Some 738010, kw_end_date = Some 738000,
      kw_budget = Some (-500), kw_travelers_count = None, kw_themes = Some [HERITAGE],
      kw_accommodation_preference = None, kw_transport_preference = None,
      kw_dietary_restrictions = None, kw_special_requirements = None,
      kw_language_preference = None, kw_include_flights = None, kw_flexible_dates = None\<rparr>"

definition same_day_request :: TripRequest where
  "same_day_request =
     \<lparr>destination = ''Goa'', start_date = 738000, end_date = 738000,
      budget = 1000, travelers_count = 1, themes = [HERITAGE],
      accommodation_preference = None, transport_preference = None,
      dietary_restrictions = None, special_requirements = None,
      language_preference = ''en'', include_flights = True, flexible_dates = False\<rparr>"

section \<open>The chat route (api/routes.py, main.py)\<close>











section \<open>Booking service (services/booking_service.py)\<close>

subsection \<open>Refund on cancellation\<close>

datatype BookingType = BT_FLIGHT | BT_HOTEL | BT_TRANSPORT | BT_ACTIVITY | BT_PACKAGE

datatype BookingStatus = PENDING | CONFIRMED | CANCELLED | FAILED | REFUNDED

text \<open>
  A \<open>datetime\<close> is naive or aware of its time zone; \<open>Naive t\<close> is the naive datetime
  that lies \<open>t\<close> microseconds after the first one, \<open>Aware t\<close> an aware datetime that lies
  \<open>t\<close> microseconds after the first instant in UTC. \<open>BookingItem.date\<close> is declared
  \<open>datetime\<close> with no constraint, so both kinds occur. The difference of two
  datetimes of one kind is a \<open>timedelta\<close>, here its count of microseconds; the
  difference of a naive and an aware one raises \<open>TypeError\<close>.
\<close>

datatype datetime = Naive int | Aware int

fun datetime_sub :: "datetime \<Rightarrow> datetime \<Rightarrow> error + int" where
  "datetime_sub (Naive a) (Naive b) = Inr (a - b)"
| "datetime_sub (Aware a) (Aware b) = Inr (a - b)"
| "datetime_sub (Naive a) (Aware b) = Inl TypeError"
| "datetime_sub (Aware a) (Naive b) = Inl TypeError"

text \<open>\<open>td.total_seconds() / 3600\<close>\<close>

definition total_hours :: "int \<Rightarrow> rat" where
  "total_hours td = (of_int td / 1000000) / 3600"

text \<open>
  Only the fields of \<open>BookingItem\<close> and \<open>Booking\<close> that the cancellation path reads
  or writes are kept.
\<close>

record BookingItem =
  item_id :: string
  booking_type :: BookingType
  item_date :: datetime
  confirmation_code :: "string option"

record Booking =
  booking_id :: string
  booking_items :: "BookingItem list"
  total_amount :: rat
  status :: BookingStatus
  cancelled_at :: "int option"
  cancellation_reason :: "string option"
  refund_amount :: "rat option"
  updated_at :: int

text \<open>
  \<open>hours_until_booking = (booking.booking_items[0].date - datetime.now()).total_seconds() / 3600\<close>;
  indexing an empty list raises \<open>IndexError\<close>, and \<open>datetime.now()\<close> is a naive
  datetime, \<open>now\<close> microseconds after the first one.
\<close>

definition calculate_refund :: "int \<Rightarrow> Booking \<Rightarrow> error + rat" where
  "calculate_refund now booking =
     (case booking_items booking of
        [] \<Rightarrow> Inl IndexError
      | item # _ \<Rightarrow>
          (case datetime_sub (item_date item) (Naive now) of
             Inl e \<Rightarrow> Inl e
           | Inr td \<Rightarrow>
               (let hours_until_booking = total_hours td
                in if hours_until_booking > 48 then Inr (total_amount booking * (9 / 10))
                   else if hours_until_booking > 24 then Inr (total_amount booking * (1 / 2))
                   else Inr 0)))"

text \<open>
  \<open>_cancel_emt_booking\<close> is a mock; \<open>_get_booking\<close> is a stub that finds no booking.
  \<open>cancel_booking_with\<close> is \<open>cancel_booking\<close> with the lookup as an argument; the three
  times are the successive readings of \<open>datetime.now()\<close>, the last one inside
  \<open>_calculate_refund\<close>. \<open>_update_booking\<close> stores nothing.
\<close>

definition cancel_emt_booking :: "BookingType \<Rightarrow> string \<Rightarrow> dict" where
  "cancel_emt_booking bt code =
     [(''confirmation_code'', PStr code), (''cancelled'', PBool True),
      (''refund_status'', PStr ''processing'')]"

definition get_booking :: "string \<Rightarrow> Booking option" where
  "get_booking bid = None"

definition cancel_booking_with ::
  "(string \<Rightarrow> Booking option) \<Rightarrow> int \<Rightarrow> int \<Rightarrow> int \<Rightarrow> string \<Rightarrow> string \<Rightarrow> error + dict" where
  "cancel_booking_with lookup now1 now2 now3 bid reason =
     (case lookup bid of
        None \<Rightarrow> Inl (ValueError (''Booking '' @ bid @ '' not found''))
      | Some booking \<Rightarrow>
          if status booking = CANCELLED \<or> status booking = REFUNDED
          then Inr [(''status'', PStr ''already_cancelled''),
                    (''message'', PStr ''Booking is already cancelled'')]
          else
            (let cancellation_results =
                   concat (map (\<lambda>item.
                      (case confirmation_code item of
                         None \<Rightarrow> []
                       | Some code \<Rightarrow>
                           if code = [] then []
                           else [PDict (cancel_emt_booking (booking_type item) code)]))
                     (booking_items booking));
                 booking' = booking\<lparr>status := CANCELLED, cancelled_at := Some now1,
                                     cancellation_reason := Some reason, updated_at := now2\<rparr>
             in case calculate_refund now3 booking' of
                  Inl e \<Rightarrow> Inl e
                | Inr refund \<Rightarrow>
                    Inr [(''status'', PStr ''cancelled''),
                         (''booking_id'', PStr bid),
                         (''refund_amount'', PFloat refund),
                         (''cancellation_results'', PList cancellation_results)]))"

definition cancel_booking :: "int \<Rightarrow> int \<Rightarrow> int \<Rightarrow> string \<Rightarrow> string \<Rightarrow> error + dict" where
  "cancel_booking = cancel_booking_with get_booking"

definition sample_booking :: "rat \<Rightarrow> datetime \<Rightarrow> Booking" where
  "sample_booking amount d =
     \<lparr>booking_id = ''b1'',
      booking_items = [\<lparr>item_id = ''i1'', booking_type = BT_HOTEL, item_date = d,
                         confirmation_code = Some ''HT-0A1B2C3D''\<rparr>],
      total_amount = amount, status = PENDING, cancelled_at = None,
      cancellation_reason = None, refund_amount = None, updated_at = 0\<rparr>"

subsection \<open>The mocked EMT provider\<close>

text \<open>
  Every confirmation code comes from a fresh \<open>uuid.uuid4()\<close>. The generator is a
  supply \<open>uuid_source\<close> of hexadecimal strings, the state counts the calls made so far;
  \<open>requests_sent\<close> records what is sent through the service's HTTP client.
\<close>

record emt_state =
  uuid_calls :: nat
  requests_sent :: "string list"

definition uuid4_hex :: "(nat \<Rightarrow> string) \<Rightarrow> emt_state \<Rightarrow> string \<times> emt_state" where
  "uuid4_hex uuid_source st = (uuid_source (uuid_calls st), st\<lparr>uuid_calls := Suc (uuid_calls st)\<rparr>)"

definition upper_char :: "char \<Rightarrow> char" where
  "upper_char c =
     (case map_of (zip ''abcdefghijklmnopqrstuvwxyz'' ''ABCDEFGHIJKLMNOPQRSTUVWXYZ'') c of
        Some u \<Rightarrow> u
      | None \<Rightarrow> c)"

definition upper :: "string \<Rightarrow> string" where
  "upper s = map upper_char s"

definition book_flight :: "(nat \<Rightarrow> string) \<Rightarrow> emt_state \<Rightarrow> dict \<Rightarrow> dict \<times> emt_state" where
  "book_flight uuid_source st flight_data =
     (let (u1, st1) = uuid4_hex uuid_source st;
          (u2, st2) = uuid4_hex uuid_source st1;
          (u3, st3) = uuid4_hex uuid_source st2
      in ([(''confirmation_code'', PStr (''FL-'' @ upper (take 8 u1))),
           (''pnr'', PStr (''PNR'' @ upper (take 6 u2))),
           (''status'', PStr ''confirmed''),
           (''ticket_url'', PStr (''https://emt.com/tickets/'' @ u3))], st3))"

definition book_hotel :: "(nat \<Rightarrow> string) \<Rightarrow> emt_state \<Rightarrow> dict \<Rightarrow> dict \<times> emt_state" where
  "book_hotel uuid_source st hotel_data =
     (let (u1, st1) = uuid4_hex uuid_source st;
          (u2, st2) = uuid4_hex uuid_source st1;
          (u3, st3) = uuid4_hex uuid_source st2
      in ([(''confirmation_code'', PStr (''HT-'' @ upper (take 8 u1))),
           (''reservation_id'', PStr (''RES'' @ upper (take 6 u2))),
           (''status'', PStr ''confirmed''),
           (''voucher_url'', PStr (''https://emt.com/vouchers/'' @ u3))], st3))"

definition book_train :: "(nat \<Rightarrow> string) \<Rightarrow> emt_state \<Rightarrow> dict \<Rightarrow> dict \<times> emt_state" where
  "book_train uuid_source st train_data =
     (let (u1, st1) = uuid4_hex uuid_source st;
          (u2, st2) = uuid4_hex uuid_source st1;
          (u3, st3) = uuid4_hex uuid_source st2
      in ([(''confirmation_code'', PStr (''TR-'' @ upper (take 8 u1))),
           (''pnr'', PStr (''PNR'' @ upper (take 10 u2))),
           (''status'', PStr ''confirmed''),
           (''ticket_url'', PStr (''https://emt.com/train-tickets/'' @ u3))], st3))"

definition book_bus :: "(nat \<Rightarrow> string) \<Rightarrow> emt_state \<Rightarrow> dict \<Rightarrow> dict \<times> emt_state" where
  "book_bus uuid_source st bus_data =
     (let (u1, st1) = uuid4_hex uuid_source st;
          (u2, st2) = uuid4_hex uuid_source st1;
          (u3, st3) = uuid4_hex uuid_source st2
      in ([(''confirmation_code'', PStr (''BS-'' @ upper (take 8 u1))),
           (''booking_id'', PStr (''BUS'' @ upper (take 6 u2))),
           (''status'', PStr ''confirmed''),
           (''ticket_url'', PStr (''https://emt.com/bus-tickets/'' @ u3))], st3))"

definition book_cab :: "(nat \<Rightarrow> string) \<Rightarrow> emt_state \<Rightarrow> dict \<Rightarrow> dict \<times> emt_state" where
  "book_cab uuid_source st cab_data =
     (let (u1, st1) = uuid4_hex uuid_source st;
          (u2, st2) = uuid4_hex uuid_source st1
      in ([(''confirmation_code'', PStr (''CB-'' @ upper (take 8 u1))),
           (''ride_id'', PStr (''RIDE'' @ upper (take 6 u2))),
           (''status'', PStr ''confirmed''),
           (''driver_details'', PDict [(''name'', PStr ''Driver Name''),
                                       (''phone'', PStr ''+91-9999999999''),
                                       (''vehicle'', PStr ''Vehicle Model''),
                                       (''number'', PStr ''DL01AB1234'')])], st2))"

definition book_transport :: "(nat \<Rightarrow> string) \<Rightarrow> emt_state \<Rightarrow> dict \<Rightarrow> dict \<times> emt_state" where
  "book_transport uuid_source st transport_data =
     (let transport_type = dict_get_default transport_data ''transport_type'' (PStr ''cab'')
      in if transport_type = PStr ''train'' then book_train uuid_source st transport_data
         else if transport_type = PStr ''bus'' then book_bus uuid_source st transport_data
         else book_cab uuid_source st transport_data)"

definition book_activity :: "(nat \<Rightarrow> string) \<Rightarrow> emt_state \<Rightarrow> dict \<Rightarrow> dict \<times> emt_state" where
  "book_activity uuid_source st activity_data =
     (let (u1, st1) = uuid4_hex uuid_source st;
          (u2, st2) = uuid4_hex uuid_source st1;
          (u3, st3) = uuid4_hex uuid_source st2;
          (u4, st4) = uuid4_hex uuid_source st3
      in ([(''confirmation_code'', PStr (''AC-'' @ upper (take 8 u1))),
           (''booking_ref'', PStr (''ACT'' @ upper (take 6 u2))),
           (''status'', PStr ''confirmed''),
           (''voucher_url'', PStr (''https://emt.com/activities/'' @ u3)),
           (''qr_code'', PStr (''QR-'' @ upper (take 12 u4)))], st4))"

definition create_emt_booking :: "(nat \<Rightarrow> string) \<Rightarrow> emt_state \<Rightarrow> dict \<Rightarrow> dict \<times> emt_state" where
  "create_emt_booking uuid_source st item_data =
     (let booking_type = dict_get_default item_data ''type'' PNone
      in if booking_type = PStr ''flight'' then book_flight uuid_source st item_data
         else if booking_type = PStr ''hotel'' then book_hotel uuid_source st item_data
         else if booking_type = PStr ''transport'' then book_transport uuid_source st item_data
         else if booking_type = PStr ''activity'' then book_activity uuid_source st item_data
         else (let (u1, st1) = uuid4_hex uuid_source st
               in ([(''confirmation_code'', PStr (''EMT-'' @ upper (take 8 u1))),
                    (''status'', PStr ''confirmed'')], st1)))"

definition confirmation_prefix :: "dict \<Rightarrow> string" where
  "confirmation_prefix item_data =
     (if dict_get item_data ''type'' = Some (PStr ''flight'') then ''FL-''
      else if dict_get item_data ''type'' = Some (PStr ''hotel'') then ''HT-''
      else if dict_get item_data ''type'' = Some (PStr ''transport'') then
        (if dict_get item_data ''transport_type'' = Some (PStr ''train'') then ''TR-''
         else if dict_get item_data ''transport_type'' = Some (PStr ''bus'') then ''BS-''
         else ''CB-'')
      else if dict_get item_data ''type'' = Some (PStr ''activity'') then ''AC-''
      else ''EMT-'')"

definition sample_uuid_source :: "nat \<Rightarrow> string" where
  "sample_uuid_source k = (if k = 0 then ''3f2a9c1e5b7d4e60a1b2c3d4e5f60718'' else ''0123456789abcdef0123456789abcdef'')"

section \<open>Route ordering (services/itinerary_service.py)\<close>

text \<open>
  \<open>_get_optimal_route\<close> orders a day's activities by a nearest-neighbour walk.
  \<open>min_key_from\<close> is Python's \<open>min(remaining, key=...)\<close>: the first element with the
  least key. \<open>remove1\<close> is \<open>list.remove\<close>. The distance matrix comes from the maps
  service; a failing lookup is caught and the activities are returned as they are.
\<close>

record Activity =
  name :: string
  description :: string
  duration_hours :: rat
  cost :: rat
  location :: dict
  category :: string
  rating :: "rat option"
  booking_required :: bool
  booking_url :: "string option"
  tips :: "string list option"

definition get_distance :: "Activity \<Rightarrow> Activity \<Rightarrow> 'm \<Rightarrow> rat" where
  "get_distance activity1 activity2 matrix = 1"

fun min_key_from :: "('a \<Rightarrow> rat) \<Rightarrow> 'a \<Rightarrow> 'a list \<Rightarrow> 'a" where
  "min_key_from key best [] = best"
| "min_key_from key best (x # xs) = min_key_from key (if key x < key best then x else best) xs"

function nearest_neighbor :: "'m \<Rightarrow> Activity list \<Rightarrow> Activity list \<Rightarrow> Activity list" where
  "nearest_neighbor matrix optimized [] = optimized"
| "nearest_neighbor matrix optimized (r # rs) =
     (let current = last optimized;
          nearest = min_key_from (\<lambda>x. get_distance current x matrix) r rs
      in nearest_neighbor matrix (optimized @ [nearest]) (remove1 nearest (r # rs)))"
  by pat_completeness auto
termination
proof (relation "measure (\<lambda>(matrix, optimized, remaining). length remaining)")
  show "wf (measure (\<lambda>(matrix :: 'm, optimized :: Activity list, remaining :: Activity list). length remaining))"
    by simp
next
  fix matrix :: 'm and optimized r rs x xa
  have mem: "min_key_from key best xs \<in> set (best # xs)"
    for key :: "Activity \<Rightarrow> rat" and best xs
    by (induction xs arbitrary: best) auto
  assume "xa = min_key_from (\<lambda>x'. get_distance x x' matrix) r rs"
  then have "xa \<in> set (r # rs)" by (simp only: mem)
  then have "length (remove1 xa (r # rs)) < length (r # rs)"
    by (simp only: length_remove1) simp
  then show "((matrix, optimized @ [xa], remove1 xa (r # rs)), (matrix, optimized, r # rs))
       \<in> measure (\<lambda>(matrix, optimized, remaining). length remaining)"
    by simp
qed

definition extract_locations :: "Activity list \<Rightarrow> pyval list" where
  "extract_locations activities =
     concat (map (\<lambda>activity.
        (case dict_get (location activity) ''address'' of
           Some address \<Rightarrow> if location activity \<noteq> [] then [address] else []
         | None \<Rightarrow> [])) activities)"

definition get_optimal_route :: "error + 'm \<Rightarrow> Activity list \<Rightarrow> Activity list" where
  "get_optimal_route distance_matrix activities =
     (if length activities \<le> 2 then activities
      else let locations = extract_locations activities
           in if length locations < length activities then activities
              else (case distance_matrix of
                      Inl e \<Rightarrow> activities
                    | Inr matrix \<Rightarrow>
                        (case activities of
                           [] \<Rightarrow> activities
                         | first # rest \<Rightarrow> nearest_neighbor matrix [first] rest)))"

definition optimize_day_activities :: "error + 'm \<Rightarrow> Activity list \<Rightarrow> Activity list" where
  "optimize_day_activities distance_matrix activities =
     (if length activities > 1
      then (let optimized_order = get_optimal_route distance_matrix activities
            in if optimized_order \<noteq> [] then optimized_order else activities)
      else activities)"

definition sample_activity :: "string \<Rightarrow> Activity" where
  "sample_activity n =
     \<lparr>name = n, description = [], duration_hours = 1, cost = 0,
      location = [(''address'', PStr n)], category = ''general'', rating = None,
      booking_required = False, booking_url = None, tips = None\<rparr>"

section \<open>AI service (services/ai_service.py)\<close>

subsection \<open>Python operations on JSON values\<close>

text \<open>
  \<open>num_val\<close> is the numeric value of an \<open>int\<close>, \<open>float\<close> or \<open>bool\<close>, the values that
  pass \<open>isinstance(v, (int, float))\<close>. \<open>py_in k x\<close> is \<open>k in x\<close> for a string \<open>k\<close>:
  key membership in a dictionary, element membership in a list, substring test in a
  string, \<open>TypeError\<close> otherwise. \<open>py_iter\<close> lists what a \<open>for\<close> loop over the value
  visits. \<open>TypeError\<close> also stands for the \<open>AttributeError\<close> of calling \<open>.get\<close> on a
  value that is not a dictionary.

  The source mutates its dictionaries in place inside \<open>try\<close> blocks whose handler returns
  the dictionary as it is by then. So a mutating step yields the state it reached together
  with the exception that stopped it, if any (\<open>'a upd\<close>).
\<close>

fun num_val :: "pyval \<Rightarrow> rat option" where
  "num_val (PBool b) = Some (if b then 1 else 0)"
| "num_val (PInt i) = Some (of_int i)"
| "num_val (PFloat r) = Some r"
| "num_val v = None"

fun is_substring :: "string \<Rightarrow> string \<Rightarrow> bool" where
  "is_substring k [] = (k = [])"
| "is_substring k (c # s) = (take (length k) (c # s) = k \<or> is_substring k s)"

fun py_in :: "string \<Rightarrow> pyval \<Rightarrow> error + bool" where
  "py_in k (PDict d) = Inr (map_of d k \<noteq> None)"
| "py_in k (PList xs) = Inr (PStr k \<in> set xs)"
| "py_in k (PStr s) = Inr (is_substring k s)"
| "py_in k v = Inl TypeError"

fun py_iter :: "pyval \<Rightarrow> error + pyval list" where
  "py_iter (PList xs) = Inr xs"
| "py_iter (PDict d) = Inr (map (\<lambda>(k, v). PStr k) d)"
| "py_iter (PStr s) = Inr (map (\<lambda>c. PStr [c]) s)"
| "py_iter v = Inl TypeError"

type_synonym 'a upd = "'a \<times> error option"

fun for_each :: "(pyval \<Rightarrow> pyval upd) \<Rightarrow> pyval list \<Rightarrow> (pyval list) upd" where
  "for_each f [] = ([], None)"
| "for_each f (x # xs) =
     (case f x of
        (x', Some e) \<Rightarrow> (x' # xs, Some e)
      | (x', None) \<Rightarrow> (case for_each f xs of (xs', r) \<Rightarrow> (x' # xs', r)))"

definition for_each_item :: "(pyval \<Rightarrow> pyval upd) \<Rightarrow> pyval \<Rightarrow> pyval upd" where
  "for_each_item f v =
     (case v of
        PList xs \<Rightarrow> (case for_each f xs of (xs', r) \<Rightarrow> (PList xs', r))
      | _ \<Rightarrow> (case py_iter v of
                Inl e \<Rightarrow> (v, Some e)
              | Inr xs \<Rightarrow> (v, snd (for_each f xs))))"

definition update_item :: "dict \<Rightarrow> string \<Rightarrow> pyval \<Rightarrow> (pyval \<Rightarrow> pyval upd) \<Rightarrow> dict upd" where
  "update_item d k dflt f =
     (case map_of d k of
        None \<Rightarrow> (d, snd (f dflt))
      | Some v \<Rightarrow> (case f v of (v', r) \<Rightarrow> (dict_set d k v', r)))"

subsection \<open>Budget adjustment\<close>

text \<open>
  \<open>scale_key k ratio x\<close> is \<open>if k in x: x[k] *= ratio\<close>. \<open>adjust_cost_breakdown\<close> is the
  loop over \<open>itinerary['cost_breakdown']\<close>: for a dictionary it scales the numeric entries;
  a list is indexed by its own elements (\<open>scale_by_elements\<close>); anything else cannot be
  iterated or indexed. \<open>_adjust_for_budget\<close> catches every exception and returns the
  itinerary as mutated so far.
\<close>

definition scale_key :: "string \<Rightarrow> rat \<Rightarrow> pyval \<Rightarrow> pyval upd" where
  "scale_key k ratio x =
     (case py_in k x of
        Inl e \<Rightarrow> (x, Some e)
      | Inr False \<Rightarrow> (x, None)
      | Inr True \<Rightarrow>
          (case x of
             PDict d \<Rightarrow>
               (case map_of d k of
                  None \<Rightarrow> (x, Some KeyError)
                | Some v \<Rightarrow>
                    (case num_val v of
                       None \<Rightarrow> (x, Some TypeError)
                     | Some n \<Rightarrow> (PDict (dict_set d k (PFloat (n * ratio))), None)))
           | _ \<Rightarrow> (x, Some TypeError)))"

definition adjust_activity :: "rat \<Rightarrow> pyval \<Rightarrow> pyval upd" where
  "adjust_activity ratio activity =
     (case scale_key ''cost_per_person'' ratio activity of
        (activity', Some e) \<Rightarrow> (activity', Some e)
      | (activity', None) \<Rightarrow> scale_key ''total_cost'' ratio activity')"

definition adjust_day :: "rat \<Rightarrow> pyval \<Rightarrow> pyval upd" where
  "adjust_day ratio day =
     (case scale_key ''day_total_cost'' ratio day of
        (day', Some e) \<Rightarrow> (day', Some e)
      | (day', None) \<Rightarrow>
          (case day' of
             PDict d \<Rightarrow>
               (case update_item d ''activities'' (PList []) (for_each_item (adjust_activity ratio)) of
                  (d', r) \<Rightarrow> (PDict d', r))
           | _ \<Rightarrow> (day', Some TypeError)))"

definition list_index :: "pyval list \<Rightarrow> pyval \<Rightarrow> error + nat" where
  "list_index xs i =
     (case (case i of PInt n \<Rightarrow> Some n | PBool b \<Rightarrow> Some (if b then 1 else 0) | _ \<Rightarrow> None) of
        None \<Rightarrow> Inl TypeError
      | Some n \<Rightarrow>
          (let j = (if n < 0 then n + int (length xs) else n)
           in if 0 \<le> j \<and> j < int (length xs) then Inr (nat j) else Inl IndexError))"

fun scale_by_elements :: "rat \<Rightarrow> nat \<Rightarrow> nat \<Rightarrow> pyval list \<Rightarrow> (pyval list) upd" where
  "scale_by_elements ratio 0 pos xs = (xs, None)"
| "scale_by_elements ratio (Suc n) pos xs =
     (case list_index xs (xs ! pos) of
        Inl e \<Rightarrow> (xs, Some e)
      | Inr j \<Rightarrow>
          (case num_val (xs ! j) of
             None \<Rightarrow> scale_by_elements ratio n (Suc pos) xs
           | Some v \<Rightarrow> scale_by_elements ratio n (Suc pos) (xs[j := PFloat (v * ratio)])))"

definition adjust_cost_breakdown :: "rat \<Rightarrow> pyval \<Rightarrow> pyval upd" where
  "adjust_cost_breakdown ratio cb =
     (case cb of
        PDict d \<Rightarrow>
          (PDict (map (\<lambda>(category, v).
                    (category, case num_val v of None \<Rightarrow> v | Some n \<Rightarrow> PFloat (n * ratio))) d), None)
      | PList xs \<Rightarrow> (case scale_by_elements ratio (length xs) 0 xs of (xs', r) \<Rightarrow> (PList xs', r))
      | PStr s \<Rightarrow> (cb, if s = [] then None else Some TypeError)
      | _ \<Rightarrow> (cb, Some TypeError))"

definition adjust_for_budget :: "dict \<Rightarrow> rat \<Rightarrow> dict" where
  "adjust_for_budget itinerary budget_value =
     (let current_cost = dict_get_default itinerary ''total_estimated_cost'' (PInt 0)
      in case num_val current_cost of
           None \<Rightarrow> itinerary
         | Some c \<Rightarrow>
             if c > budget_value then
               (if c = 0 then itinerary
                else
                  (let adjustment_ratio = budget_value / c
                   in case (case map_of itinerary ''cost_breakdown'' of
                              None \<Rightarrow> (itinerary, None)
                            | Some cb \<Rightarrow>
                                (case adjust_cost_breakdown adjustment_ratio cb of
                                   (cb', r) \<Rightarrow> (dict_set itinerary ''cost_breakdown'' cb', r))) of
                        (it1, Some e) \<Rightarrow> it1
                      | (it1, None) \<Rightarrow>
                          (case update_item it1 ''daily_itineraries'' (PList [])
                                  (for_each_item (adjust_day adjustment_ratio)) of
                             (it2, Some e) \<Rightarrow> it2
                           | (it2, None) \<Rightarrow>
                               dict_set (dict_set it2 ''total_estimated_cost'' (PFloat budget_value))
                                 ''budget_adjusted'' (PBool True))))
             else itinerary)"

definition sample_itinerary :: dict where
  "sample_itinerary =
     [(''daily_itineraries'', PList [PDict
         [(''day_number'', PInt 1),
          (''activities'', PList [PDict [(''activity_name'', PStr ''Fort''),
                                         (''cost_per_person'', PInt 400),
                                         (''total_cost'', PInt 800)]]),
          (''meals'', PList [PDict [(''meal_type'', PStr ''lunch''), (''cost_estimate'', PInt 600)]]),
          (''transport'', PList [PDict [(''mode'', PStr ''taxi''), (''cost'', PInt 200)]]),
          (''day_total_cost'', PInt 2000)]]),
      (''cost_breakdown'', PDict [(''meals'', PInt 600), (''activities'', PInt 800),
                                  (''transport'', PInt 200), (''miscellaneous'', PInt 400)]),
      (''total_estimated_cost'', PInt 2000)]"

subsection \<open>Requests and the outside world\<close>

text \<open>
  \<open>generate_itinerary\<close> receives the trip request as a dictionary. The model keeps the
  keys the service reads, each with the type the \<open>TripRequest\<close> model gives it; \<open>None\<close>
  is an absent key. What the service obtains from outside (the clock, the cache, the
  generative model, \<open>json.loads\<close>, the rendering of values as text) is collected in
  \<open>world\<close>, one per attempt.
\<close>

record trip_request =
  rq_destination :: "string option"
  rq_budget :: "rat option"
  rq_duration_days :: "int option"
  rq_travelers_count :: "int option"
  rq_start_date :: "int option"
  rq_end_date :: "int option"
  rq_themes :: "string list option"
  rq_request_id :: "string option"
  rq_user_preferences :: "dict option"

record world =
  today :: int
  str_date :: "int \<Rightarrow> string"
  utcnow_iso :: string
  now_iso :: string
  gemini_model :: string
  format_value :: "pyval \<Rightarrow> string"
  json_loads :: "string \<Rightarrow> pyval option"
  cached_response :: "pyval option"
  model_response :: "error + string"

text \<open>\<open>date + timedelta(days=k)\<close>; dates range from 0001-01-01 to 9999-12-31.\<close>

definition date_add :: "int \<Rightarrow> int \<Rightarrow> error + int" where
  "date_add d k = (if 1 \<le> d + k \<and> d + k \<le> 3652059 then Inr (d + k) else Inl OverflowError)"


subsection \<open>The fallback itinerary and the defaults\<close>

definition fallback_day :: "world \<Rightarrow> rat \<Rightarrow> nat \<Rightarrow> int \<Rightarrow> pyval" where
  "fallback_day w daily_budget day d =
     PDict [(''day_number'', PInt (int day + 1)),
            (''date'', PStr (str_date w d)),
            (''activities'', PList
               [PDict [(''time_slot'', PStr ''09:00-12:00''),
                       (''activity_name'', PStr ''Morning Sightseeing''),
                       (''description'', PStr ''Explore popular local attractions''),
                       (''duration_hours'', PInt 3),
                       (''cost_per_person'', PFloat (daily_budget * (2 / 10))),
                       (''category'', PStr ''sightseeing'')],
                PDict [(''time_slot'', PStr ''14:00-17:00''),
                       (''activity_name'', PStr ''Cultural Experience''),
                       (''description'', PStr ''Immerse in local culture and traditions''),
                       (''duration_hours'', PInt 3),
                       (''cost_per_person'', PFloat (daily_budget * (15 / 100))),
                       (''category'', PStr ''cultural'')]]),
            (''day_total_cost'', PFloat daily_budget)]"

fun fallback_days :: "world \<Rightarrow> int \<Rightarrow> rat \<Rightarrow> nat list \<Rightarrow> error + pyval list" where
  "fallback_days w start daily_budget [] = Inr []"
| "fallback_days w start daily_budget (day # rest) =
     (case date_add start (int day) of
        Inl e \<Rightarrow> Inl e
      | Inr d \<Rightarrow>
          (case fallback_days w start daily_budget rest of
             Inl e \<Rightarrow> Inl e
           | Inr ds \<Rightarrow> Inr (fallback_day w daily_budget day d # ds)))"

definition create_fallback_itinerary :: "world \<Rightarrow> trip_request \<Rightarrow> error + dict" where
  "create_fallback_itinerary w req =
     (let duration = or_default (rq_duration_days req) 3
      in case rq_budget req of
           None \<Rightarrow> Inl KeyError
         | Some b \<Rightarrow>
             if duration = 0 then Inl ZeroDivisionError
             else
               (let daily_budget = b / of_int duration
                in case fallback_days w (or_default (rq_start_date req) (today w)) daily_budget
                          [0..<nat duration] of
                     Inl e \<Rightarrow> Inl e
                   | Inr daily_itineraries \<Rightarrow>
                       Inr [(''daily_itineraries'', PList daily_itineraries),
                            (''total_estimated_cost'', PFloat b),
                            (''fallback_mode'', PBool True),
                            (''message'', PStr ''This is a basic itinerary. Please refine your preferences for a more detailed plan.'')]))"

definition get_default_value :: "string \<Rightarrow> pyval" where
  "get_default_value field =
     dict_get_default
       [(''daily_itineraries'', PList []),
        (''cost_breakdown'', PDict [(''accommodation'', PInt 0), (''meals'', PInt 0),
                                    (''activities'', PInt 0), (''transport'', PInt 0),
                                    (''miscellaneous'', PInt 0)]),
        (''total_estimated_cost'', PInt 0),
        (''local_tips'', PList []),
        (''emergency_contacts'', PDict [(''police'', PStr ''100''), (''ambulance'', PStr ''108''),
                                        (''tourist_helpline'', PStr ''1363'')])]
       field PNone"

subsection \<open>Parsing and validating the response\<close>

fun find_char :: "char \<Rightarrow> string \<Rightarrow> nat option" where
  "find_char c [] = None"
| "find_char c (x # xs) = (if x = c then Some 0 else map_option Suc (find_char c xs))"

definition rfind_char :: "char \<Rightarrow> string \<Rightarrow> nat option" where
  "rfind_char c s = map_option (\<lambda>i. length s - 1 - i) (find_char c (rev s))"

definition extract_json :: "string \<Rightarrow> string" where
  "extract_json response_text =
     (case (find_char (CHR ''{'') response_text, rfind_char (CHR ''}'') response_text) of
        (Some json_start, Some last_brace) \<Rightarrow>
          (let json_end = last_brace + 1
           in take (json_end - json_start) (drop json_start response_text))
      | _ \<Rightarrow> response_text)"

definition required_fields :: "string list" where
  "required_fields = [''daily_itineraries'', ''cost_breakdown'', ''total_estimated_cost'']"

definition fill_required :: "dict \<Rightarrow> dict" where
  "fill_required itinerary_data =
     foldl (\<lambda>d field. if map_of d field = None then dict_set d field (get_default_value field) else d)
       itinerary_data required_fields"

definition parse_and_validate_response :: "world \<Rightarrow> string \<Rightarrow> trip_request \<Rightarrow> error + dict" where
  "parse_and_validate_response w response_text req =
     (case json_loads w (extract_json response_text) of
        None \<Rightarrow> create_fallback_itinerary w req
      | Some (PDict parsed) \<Rightarrow>
          (let itinerary_data = fill_required parsed
           in case rq_budget req of
                None \<Rightarrow> Inl KeyError
              | Some b \<Rightarrow>
                  (case num_val (dict_get_default itinerary_data ''total_estimated_cost'' (PInt 0)) of
                     None \<Rightarrow> Inl TypeError
                   | Some c \<Rightarrow>
                       Inr (if c > b then adjust_for_budget itinerary_data b else itinerary_data)))
      | Some other \<Rightarrow> Inl TypeError)"

definition sample_world :: world where
  "sample_world =
     \<lparr>today = 738000, str_date = (\<lambda>d. ''2021-08-01''), utcnow_iso = ''2021-08-01T00:00:00'',
      now_iso = ''2021-08-01T05:30:00'', gemini_model = ''gemini-pro'',
      format_value = (\<lambda>v. (case v of PInt i \<Rightarrow> (if i = 1 then ''1'' else ''2'') | _ \<Rightarrow> ''?'')),
      json_loads = (\<lambda>s. if s = ''[]'' then Some (PList [])
                         else if s = ''{}'' then Some (PDict [])
                         else if s = ''[{}, {}]'' then Some (PList [PDict [], PDict []])
                         else None),
      cached_response = None,
      model_response = Inl ExternalError\<rparr>"

definition sample_request :: "int \<Rightarrow> trip_request" where
  "sample_request days =
     \<lparr>rq_destination = Some ''Goa'', rq_budget = Some 6000, rq_duration_days = Some days,
      rq_travelers_count = Some 2, rq_start_date = Some 738000, rq_end_date = Some 738002,
      rq_themes = Some [''heritage''], rq_request_id = None, rq_user_preferences = None\<rparr>"

text \<open>
  The zeroed cost map: exactly the five categories, each with the value zero. After a
  budget adjustment the zeros are floats. \<open>scale_costs\<close> is what the adjustment makes
  of a cost breakdown that is a dictionary.
\<close>

definition zero_costs :: "dict \<Rightarrow> bool" where
  "zero_costs cb \<longleftrightarrow>
     map fst cb = [''accommodation'', ''meals'', ''activities'', ''transport'', ''miscellaneous'']
     \<and> list_all (\<lambda>(k, v). num_val v = Some 0) cb"

definition scale_costs :: "rat \<Rightarrow> dict \<Rightarrow> dict" where
  "scale_costs ratio cb =
     map (\<lambda>(c, v). (c, case num_val v of None \<Rightarrow> v | Some n \<Rightarrow> PFloat (n * ratio))) cb"

subsection \<open>Enhancing the itinerary\<close>










subsection \<open>Generating an itinerary\<close>





subsection \<open>Retrying\<close>

text \<open>
  \<open>@retry(stop=stop_after_attempt(n), wait=...)\<close> calls the function again while it
  raises, \<open>n\<close> times at most, and then raises \<open>RetryError\<close>. \<open>attempt k\<close> is the outcome
  of call number \<open>k\<close>; the result comes with the number of calls made. Waiting between
  calls has no effect on either.
\<close>

fun retry_call :: "nat \<Rightarrow> (nat \<Rightarrow> error + 'a) \<Rightarrow> nat \<Rightarrow> (error + 'a) \<times> nat" where
  "retry_call 0 attempt k = (Inl RetryError, k)"
| "retry_call (Suc n) attempt k =
     (case attempt k of
        Inr v \<Rightarrow> (Inr v, Suc k)
      | Inl e \<Rightarrow> retry_call n attempt (Suc k))"

text \<open>
  The service methods that reach the generative model, the maps API, the payment gateway
  or the warehouse, and the retry decorator each one carries in the source
  (\<open>None\<close>: no decorator). A method without decorator is called once.
\<close>

datatype service_function =
    AI_generate_itinerary | AI_chat_assistance | AI_optimize_itinerary
  | AI_get_real_time_suggestions | AI_translate_content
  | Maps_get_place_details | Maps_search_nearby | Maps_get_directions
  | Maps_calculate_distance_matrix | Maps_geocode_address | Maps_find_hotels
  | Maps_find_restaurants | Maps_get_place_photos
  | Payment_process_payment | Payment_create_payment_session | Payment_verify_payment
  | Payment_process_refund
  | BigQuery_insert_trip | BigQuery_update_trip | BigQuery_insert_booking
  | BigQuery_log_analytics_event | BigQuery_log_application_log




subsection \<open>The shape of the fallback payload\<close>






section \<open>Maps service (services/maps_service.py)\<close>






section \<open>Properties\<close>

subsection \<open>Date validation and the trip model\<close>

text \<open>
  C9: \<open>validate_dates\<close> raises \<open>ValueError\<close> exactly when the start date is on or after
  the end date and returns \<open>True\<close> otherwise; a same-day trip is rejected although the
  duration computed for it by \<open>_structure_itinerary\<close> is one day.
\<close>

theorem validate_dates_spec:
  "((\<exists>m. validate_dates req = Inl (ValueError m)) \<longleftrightarrow> start_date req \<ge> end_date req)
   \<and> (validate_dates req = Inr True \<longleftrightarrow> \<not> start_date req \<ge> end_date req)
   \<and> (start_date req = end_date req \<longrightarrow>
        validate_dates req = Inl (ValueError ''End date must be after start date'')
        \<and> structure_duration_days req = 1)"
  by (simp add: validate_dates_def structure_duration_days_def)

theorem validate_dates_spec_witness:
  "start_date same_day_request = end_date same_day_request
   \<and> validate_dates same_day_request = Inl (ValueError ''End date must be after start date'')
   \<and> structure_duration_days same_day_request = 1"
  using validate_dates_spec [of same_day_request]
  by (simp add: same_day_request_def)

text \<open>
  C6: the constructor of \<open>TripRequest\<close> enforces no relation between fields: whenever the
  required fields are present it accepts the request and stores the dates and the budget
  as given, whatever their order or sign.
\<close>

theorem TripRequest_init_accepts:
  assumes "kw_destination kw = Some d" and "kw_start_date kw = Some s"
    and "kw_end_date kw = Some e" and "kw_budget kw = Some b" and "kw_themes kw = Some ts"
  shows "\<exists>r. TripRequest_init kw = Inr r \<and> start_date r = s \<and> end_date r = e \<and> budget r = b"
  using assms by (simp add: TripRequest_init_def)

theorem TripRequest_init_accepts_witness:
  "\<exists>r. TripRequest_init sample_kwargs = Inr r
       \<and> start_date r = 738010 \<and> end_date r = 738000 \<and> end_date r \<le> start_date r
       \<and> budget r = -500 \<and> budget r < 0"
  using TripRequest_init_accepts [of sample_kwargs "''Goa''" 738010 738000 "-500" "[HERITAGE]"]
  by (auto simp: sample_kwargs_def)

subsection \<open>The chat route\<close>






subsection \<open>Refunds\<close>

lemma total_hours_mono: "a \<le> b \<Longrightarrow> total_hours a \<le> total_hours b"
  by (simp add: total_hours_def divide_right_mono)

lemma calculate_refund_cases:
  assumes "booking_items booking = item # rest" and "item_date item = Naive d"
  shows "calculate_refund now booking =
     (if total_hours (d - now) > 48 then Inr (total_amount booking * (9 / 10))
      else if total_hours (d - now) > 24 then Inr (total_amount booking * (1 / 2))
      else Inr 0)"
  using assms by (simp add: calculate_refund_def Let_def)

lemma calculate_refund_aware:
  assumes "booking_items booking = item # rest" and "item_date item = Aware d"
  shows "calculate_refund now booking = Inl TypeError"
  using assms by (simp add: calculate_refund_def)

lemma calculate_refund_le_total:
  assumes "booking_items booking = item # rest" and "item_date item = Naive d"
    and "0 \<le> total_amount booking"
  shows "\<exists>r. calculate_refund now booking = Inr r \<and> r \<le> total_amount booking"
proof -
  have "total_amount booking * (9 / 10) \<le> total_amount booking"
    and "total_amount booking * (1 / 2) \<le> total_amount booking"
    using assms(3) by simp_all
  then show ?thesis
    using assms by (simp only: calculate_refund_cases[OF assms(1,2)] split: if_splits) blast
qed

lemma calculate_refund_mono:
  assumes items: "booking_items booking = item # rest" and naive: "item_date item = Naive d"
    and nonneg: "0 \<le> total_amount booking"
    and le: "now' \<le> now"
    and r: "calculate_refund now booking = Inr r"
    and r': "calculate_refund now' booking = Inr r'"
  shows "r \<le> r'"
proof -
  have h: "total_hours (d - now) \<le> total_hours (d - now')"
    using le by (intro total_hours_mono) simp
  show ?thesis
    using r r' h nonneg
    by (auto simp: calculate_refund_cases[OF items naive] split: if_splits)
qed

text \<open>
  The refund that \<open>cancel_booking\<close> reports is the one \<open>_calculate_refund\<close> computes;
  with the lookup stub of the source no booking is ever found.
\<close>

lemma cancel_booking_with_refund:
  assumes "lookup bid = Some booking" and "status booking \<noteq> CANCELLED"
    and "status booking \<noteq> REFUNDED" and "calculate_refund now3 booking = Inr refund"
  shows "\<exists>res. cancel_booking_with lookup now1 now2 now3 bid reason = Inr res
           \<and> dict_get res ''refund_amount'' = Some (PFloat refund)"
proof -
  have "calculate_refund now3 (booking\<lparr>status := CANCELLED, cancelled_at := Some now1,
          cancellation_reason := Some reason, updated_at := now2\<rparr>)
        = calculate_refund now3 booking"
    by (simp add: calculate_refund_def Let_def split: list.split sum.split)
  then show ?thesis
    using assms by (simp add: cancel_booking_with_def Let_def dict_get_def)
qed

lemma cancel_booking_not_found:
  "cancel_booking now1 now2 now3 bid reason = Inl (ValueError (''Booking '' @ bid @ '' not found''))"
  by (simp add: cancel_booking_def cancel_booking_with_def get_booking_def)

text \<open>
  C10, as stated, at a booking whose total amount is negative: the refund of 90 percent
  exceeds the total amount; and at a booking whose first item's date is aware of its
  time zone: the subtraction of the naive \<open>datetime.now()\<close> raises \<open>TypeError\<close> and no
  refund is computed.
\<close>

theorem calculate_refund_negative_total:
  "booking_items (sample_booking (-100) (Naive (49 * 3600000000))) \<noteq> []
   \<and> calculate_refund 0 (sample_booking (-100) (Naive (49 * 3600000000))) = Inr (-90)
   \<and> \<not> (-90 \<le> total_amount (sample_booking (-100) (Naive (49 * 3600000000))))
   \<and> booking_items (sample_booking 100 (Aware (49 * 3600000000))) \<noteq> []
   \<and> calculate_refund 0 (sample_booking 100 (Aware (49 * 3600000000))) = Inl TypeError"
  by (simp add: calculate_refund_def sample_booking_def total_hours_def)

text \<open>
  C10, amended: for every booking with at least one item whose first item's date is a
  naive datetime, the refund is 90 percent of the total amount when that date is more
  than 48 hours away, 50 percent when it is more than 24 and at most 48 hours away, and
  0 otherwise; when the total amount is not negative, the refund never exceeds it and
  does not decrease as the time remaining grows (an earlier cancellation never refunds
  less).
\<close>

theorem calculate_refund_policy:
  assumes "booking_items booking = item # rest" and "item_date item = Naive d"
  shows "(total_hours (d - now) > 48 \<longrightarrow>
            calculate_refund now booking = Inr (total_amount booking * (9 / 10)))
       \<and> (total_hours (d - now) > 24 \<and> total_hours (d - now) \<le> 48 \<longrightarrow>
            calculate_refund now booking = Inr (total_amount booking * (1 / 2)))
       \<and> (total_hours (d - now) \<le> 24 \<longrightarrow> calculate_refund now booking = Inr 0)
       \<and> (0 \<le> total_amount booking \<longrightarrow>
            (\<exists>r. calculate_refund now booking = Inr r \<and> r \<le> total_amount booking)
          \<and> (\<forall>now' r r'. now' \<le> now \<longrightarrow> calculate_refund now booking = Inr r \<longrightarrow>
                calculate_refund now' booking = Inr r' \<longrightarrow> r \<le> r'))"
proof (intro conjI impI)
  assume nonneg: "0 \<le> total_amount booking"
  show "\<exists>r. calculate_refund now booking = Inr r \<and> r \<le> total_amount booking"
    using assms nonneg by (rule calculate_refund_le_total)
  show "\<forall>now' r r'. now' \<le> now \<longrightarrow> calculate_refund now booking = Inr r \<longrightarrow>
              calculate_refund now' booking = Inr r' \<longrightarrow> r \<le> r'"
    using calculate_refund_mono[OF assms nonneg] by blast
qed (simp_all add: calculate_refund_cases[OF assms])

theorem calculate_refund_policy_witness:
  "calculate_refund 0 (sample_booking 100 (Naive (49 * 3600000000))) = Inr 90
   \<and> calculate_refund (24 * 3600000000) (sample_booking 100 (Naive (49 * 3600000000))) = Inr 50
   \<and> calculate_refund (25 * 3600000000) (sample_booking 100 (Naive (49 * 3600000000))) = Inr 0
   \<and> (0::rat) \<le> total_amount (sample_booking 100 (Naive (49 * 3600000000)))
   \<and> (90::rat) \<le> total_amount (sample_booking 100 (Naive (49 * 3600000000)))"
  using calculate_refund_policy[of "sample_booking 100 (Naive (49 * 3600000000))" _ "[]" "49 * 3600000000" 0]
    calculate_refund_policy[of "sample_booking 100 (Naive (49 * 3600000000))" _ "[]" "49 * 3600000000" "24 * 3600000000"]
    calculate_refund_policy[of "sample_booking 100 (Naive (49 * 3600000000))" _ "[]" "49 * 3600000000" "25 * 3600000000"]
  by (simp add: sample_booking_def total_hours_def)

subsection \<open>The mocked EMT provider\<close>

lemmas book_defs = book_flight_def book_hotel_def book_train_def book_bus_def book_cab_def
  book_transport_def book_activity_def uuid4_hex_def

text \<open>
  C7: for every booking item \<open>_create_emt_booking\<close> answers with status \<open>confirmed\<close> and
  a confirmation code made of the prefix of the item's type and the upper-cased first
  eight hexadecimal digits of a fresh uuid; it sends nothing through the HTTP client.
\<close>

theorem create_emt_booking_mock:
  "dict_get (fst (create_emt_booking uuid_source st item_data)) ''status'' = Some (PStr ''confirmed'')
   \<and> dict_get (fst (create_emt_booking uuid_source st item_data)) ''confirmation_code''
       = Some (PStr (confirmation_prefix item_data @ upper (take 8 (uuid_source (uuid_calls st)))))
   \<and> uuid_calls (snd (create_emt_booking uuid_source st item_data)) > uuid_calls st
   \<and> requests_sent (snd (create_emt_booking uuid_source st item_data)) = requests_sent st"
  by (cases "dict_get item_data ''type''"; cases "dict_get item_data ''transport_type''")
     (simp_all add: create_emt_booking_def book_defs confirmation_prefix_def dict_get_def
        dict_get_default_def Let_def)

theorem create_emt_booking_mock_witness:
  "dict_get (fst (create_emt_booking sample_uuid_source \<lparr>uuid_calls = 0, requests_sent = []\<rparr>
       [(''type'', PStr ''transport''), (''transport_type'', PStr ''bus'')])) ''confirmation_code''
     = Some (PStr ''BS-3F2A9C1E'')"
  using create_emt_booking_mock[of sample_uuid_source "\<lparr>uuid_calls = 0, requests_sent = []\<rparr>"
       "[(''type'', PStr ''transport''), (''transport_type'', PStr ''bus'')]"]
  by (simp add: confirmation_prefix_def dict_get_def sample_uuid_source_def upper_def upper_char_def)

subsection \<open>Route ordering\<close>

lemma min_key_from_const: "min_key_from (\<lambda>x. get_distance c x m) best xs = best"
  by (induction xs arbitrary: best) (simp_all add: get_distance_def)

lemma nearest_neighbor_append: "nearest_neighbor m optimized remaining = optimized @ remaining"
proof (induction remaining arbitrary: optimized)
  case Nil
  show ?case by simp
next
  case (Cons r rs)
  show ?case
    by (simp add: min_key_from_const Cons.IH)
qed

text \<open>
  C2: \<open>_get_optimal_route\<close> returns the activities in their original order, for every
  list of activities and every outcome of the distance-matrix lookup: the distance of
  every pair is 1, so the nearest remaining activity is always the first one. Hence the
  route optimisation of a day leaves the order of its activities unchanged.
\<close>

theorem get_optimal_route_identity:
  "get_optimal_route distance_matrix activities = activities
   \<and> optimize_day_activities distance_matrix activities = activities"
proof -
  have r: "\<And>dm. get_optimal_route dm activities = activities"
    by (simp add: get_optimal_route_def Let_def nearest_neighbor_append
          split: sum.split list.split)
  show ?thesis
    by (simp add: optimize_day_activities_def r Let_def)
qed

theorem get_optimal_route_identity_witness:
  "get_optimal_route (Inr PNone)
     [sample_activity ''Fort'', sample_activity ''Beach'', sample_activity ''Market'']
   = [sample_activity ''Fort'', sample_activity ''Beach'', sample_activity ''Market'']"
  using get_optimal_route_identity [of "Inr PNone"
     "[sample_activity ''Fort'', sample_activity ''Beach'', sample_activity ''Market'']"]
  by simp

subsection \<open>Budget adjustment\<close>

lemma map_of_dict_set: "map_of (dict_set d k v) k' = (if k' = k then Some v else map_of d k')"
  by (induction d) auto

lemma update_item_map_of:
  "map_of (fst (update_item d k dflt f)) k' =
     (if k' = k then map_option (\<lambda>v. fst (f v)) (map_of d k) else map_of d k')"
  by (auto simp: update_item_def map_of_dict_set split: option.split prod.split)

text \<open>
  An itinerary whose total cost is a number that does not exceed the budget, or is not a
  number at all, is returned unchanged.
\<close>

lemma adjust_for_budget_within:
  assumes "\<And>c. num_val (dict_get_default itinerary ''total_estimated_cost'' (PInt 0)) = Some c
             \<Longrightarrow> c \<le> budget_value"
  shows "adjust_for_budget itinerary budget_value = itinerary"
  using assms by (auto simp: adjust_for_budget_def Let_def split: option.split)

text \<open>
  C1 at an itinerary of total cost 2000 and a budget of 1000: the cost breakdown, the
  day total and the two costs of the activity are halved and the total becomes the budget,
  but the meal's \<open>cost_estimate\<close> (600) and the transport's \<open>cost\<close> (200) of the same day
  are left as they were.
\<close>

theorem adjust_for_budget_skips_meal_and_transport_costs:
  "adjust_for_budget sample_itinerary 1000 =
     [(''daily_itineraries'', PList [PDict
         [(''day_number'', PInt 1),
          (''activities'', PList [PDict [(''activity_name'', PStr ''Fort''),
                                         (''cost_per_person'', PFloat 200),
                                         (''total_cost'', PFloat 400)]]),
          (''meals'', PList [PDict [(''meal_type'', PStr ''lunch''), (''cost_estimate'', PInt 600)]]),
          (''transport'', PList [PDict [(''mode'', PStr ''taxi''), (''cost'', PInt 200)]]),
          (''day_total_cost'', PFloat 1000)]]),
      (''cost_breakdown'', PDict [(''meals'', PFloat 300), (''activities'', PFloat 400),
                                  (''transport'', PFloat 100), (''miscellaneous'', PFloat 200)]),
      (''total_estimated_cost'', PFloat 1000),
      (''budget_adjusted'', PBool True)]"
  by (simp add: adjust_for_budget_def sample_itinerary_def dict_get_default_def Let_def
        adjust_cost_breakdown_def update_item_def for_each_item_def adjust_day_def
        adjust_activity_def scale_key_def)

subsection \<open>Parsing and validating the response\<close>

lemma update_item_fst_map_of:
  assumes "update_item d k dflt f = (d', r)"
  shows "map_of d' k' = (if k' = k then map_option (\<lambda>v. fst (f v)) (map_of d k) else map_of d k')"
  using update_item_map_of[of d k dflt f k'] assms by simp

lemma adjust_for_budget_keeps_keys:
  assumes "map_of d k \<noteq> None"
  shows "map_of (adjust_for_budget d b) k \<noteq> None"
  using assms
  by (auto simp: adjust_for_budget_def Let_def map_of_dict_set
        dest!: update_item_fst_map_of[where k' = k]
        split: option.split prod.split if_splits)

lemma adjust_for_budget_zero_total:
  assumes "map_of d ''total_estimated_cost'' = Some (PInt 0)"
  shows "adjust_for_budget d b = d"
  using assms by (simp add: adjust_for_budget_def dict_get_default_def Let_def)

lemma for_each_item_empty: "for_each_item f (PList []) = (PList [], None)"
  by (simp add: for_each_item_def)

lemma adjust_for_budget_empty_days:
  assumes "map_of d ''daily_itineraries'' = Some (PList [])"
  shows "map_of (adjust_for_budget d b) ''daily_itineraries'' = Some (PList [])"
  using assms
  by (auto simp: adjust_for_budget_def Let_def map_of_dict_set for_each_item_empty
        dest!: update_item_fst_map_of[where k' = "''daily_itineraries''"]
        split: option.split prod.split if_splits)

lemma adjust_cost_breakdown_dict:
  "adjust_cost_breakdown ratio (PDict cb) = (PDict (scale_costs ratio cb), None)"
  by (simp add: adjust_cost_breakdown_def scale_costs_def)

lemma zero_costs_scaled: "zero_costs cb \<Longrightarrow> zero_costs (scale_costs ratio cb)"
  by (auto simp: zero_costs_def scale_costs_def list_all_iff comp_def case_prod_beta
        split: option.split)

lemma adjust_for_budget_zero_costs:
  assumes "map_of d ''cost_breakdown'' = Some (PDict cb)" and "zero_costs cb"
  shows "\<exists>cb'. map_of (adjust_for_budget d b) ''cost_breakdown'' = Some (PDict cb') \<and> zero_costs cb'"
  using assms zero_costs_scaled[OF assms(2)]
  by (auto simp: adjust_for_budget_def Let_def map_of_dict_set adjust_cost_breakdown_dict
        dest!: update_item_fst_map_of[where k' = "''cost_breakdown''"]
        split: option.split prod.split if_splits)

lemma get_default_zero_costs:
  "\<exists>cb. get_default_value ''cost_breakdown'' = PDict cb \<and> zero_costs cb"
  by (simp add: get_default_value_def dict_get_default_def zero_costs_def)


lemma fill_required_value:
  assumes "f \<in> set required_fields"
  shows "map_of (fill_required d) f = (case map_of d f of None \<Rightarrow> Some (get_default_value f) | Some v \<Rightarrow> Some v)"
  using assms
  by (auto simp: fill_required_def required_fields_def map_of_dict_set split: option.split)

lemma get_default_values:
  "get_default_value ''daily_itineraries'' = PList []"
  "get_default_value ''total_estimated_cost'' = PInt 0"
  by (simp_all add: get_default_value_def dict_get_default_def)

text \<open>
  C4, as stated, at two response texts that are valid JSON but no JSON object. For
  \<open>[]\<close> the membership test passes and the item assignment on the list raises
  \<open>TypeError\<close>. For \<open>[{}, {}]\<close> the text between the first and the last brace is
  \<open>{}, {}\<close>, which does not parse, so the fallback itinerary is returned, which has no
  \<open>cost_breakdown\<close>.
\<close>

theorem parse_and_validate_response_non_object:
  "json_loads sample_world ''[]'' = Some (PList [])
   \<and> parse_and_validate_response sample_world ''[]'' (sample_request 2) = Inl TypeError
   \<and> json_loads sample_world ''[{}, {}]'' = Some (PList [PDict [], PDict []])
   \<and> \<not> isl (parse_and_validate_response sample_world ''[{}, {}]'' (sample_request 2))
   \<and> dict_get (projr (parse_and_validate_response sample_world ''[{}, {}]'' (sample_request 2)))
         ''cost_breakdown'' = None"
  by (simp add: parse_and_validate_response_def sample_world_def extract_json_def rfind_char_def
        create_fallback_itinerary_def sample_request_def or_default_def Let_def dict_get_def
        date_add_def numeral_2_eq_2)

text \<open>
  C4, amended: when the response text from its first opening to its last closing brace
  (the whole text when either is missing) parses to a JSON object whose
  \<open>total_estimated_cost\<close>, if present, is a number, and the request has a budget, then
  \<open>_parse_and_validate_response\<close> returns a dictionary with the three required keys, and
  a key missing from the parsed object holds its default: the empty list, the zeroed
  five-category cost map, and 0.
\<close>

theorem parse_and_validate_response_keys:
  assumes loads: "json_loads w (extract_json response_text) = Some (PDict parsed)"
    and budget: "rq_budget req = Some b"
    and total: "\<And>v. dict_get parsed ''total_estimated_cost'' = Some v \<Longrightarrow> num_val v \<noteq> None"
  shows "\<exists>r. parse_and_validate_response w response_text req = Inr r
      \<and> dict_get r ''daily_itineraries'' \<noteq> None
      \<and> dict_get r ''cost_breakdown'' \<noteq> None
      \<and> dict_get r ''total_estimated_cost'' \<noteq> None
      \<and> (dict_get parsed ''daily_itineraries'' = None \<longrightarrow>
            dict_get r ''daily_itineraries'' = Some (PList []))
      \<and> (dict_get parsed ''cost_breakdown'' = None \<longrightarrow>
            (\<exists>cb. dict_get r ''cost_breakdown'' = Some (PDict cb) \<and> zero_costs cb))
      \<and> (dict_get parsed ''total_estimated_cost'' = None \<longrightarrow>
            dict_get r ''total_estimated_cost'' = Some (PInt 0))"
proof -
  define d1 where "d1 = fill_required parsed"
  have req: "''daily_itineraries'' \<in> set required_fields" "''cost_breakdown'' \<in> set required_fields"
    "''total_estimated_cost'' \<in> set required_fields"
    by (simp_all add: required_fields_def)
  have days: "map_of d1 ''daily_itineraries'' \<noteq> None"
    and costs: "map_of d1 ''cost_breakdown'' \<noteq> None"
    and tot: "map_of d1 ''total_estimated_cost'' \<noteq> None"
    by (simp_all add: d1_def fill_required_value[OF req(1)] fill_required_value[OF req(2)]
          fill_required_value[OF req(3)] split: option.split)
  have days0: "map_of parsed ''daily_itineraries'' = None \<Longrightarrow> map_of d1 ''daily_itineraries'' = Some (PList [])"
    by (simp add: d1_def fill_required_value[OF req(1)] get_default_values)
  have tot0: "map_of parsed ''total_estimated_cost'' = None \<Longrightarrow> map_of d1 ''total_estimated_cost'' = Some (PInt 0)"
    by (simp add: d1_def fill_required_value[OF req(3)] get_default_values)
  have costs0: "map_of parsed ''cost_breakdown'' = None \<Longrightarrow>
      \<exists>cb. map_of d1 ''cost_breakdown'' = Some (PDict cb) \<and> zero_costs cb"
    using get_default_zero_costs by (simp add: d1_def fill_required_value[OF req(2)])
  obtain c where c: "num_val (dict_get_default d1 ''total_estimated_cost'' (PInt 0)) = Some c"
  proof (cases "map_of parsed ''total_estimated_cost''")
    case None
    then show ?thesis using tot0 that by (simp add: dict_get_default_def)
  next
    case (Some v)
    then have "map_of d1 ''total_estimated_cost'' = Some v"
      by (simp add: d1_def fill_required_value[OF req(3)])
    moreover have "num_val v \<noteq> None" using total Some by (simp add: dict_get_def)
    ultimately show ?thesis using that by (auto simp: dict_get_default_def)
  qed
  define r where "r = (if c > b then adjust_for_budget d1 b else d1)"
  have res: "parse_and_validate_response w response_text req = Inr r"
    using loads budget c by (simp add: parse_and_validate_response_def Let_def d1_def[symmetric] r_def)
  have k1: "map_of r ''daily_itineraries'' \<noteq> None"
    and k2: "map_of r ''cost_breakdown'' \<noteq> None"
    and k3: "map_of r ''total_estimated_cost'' \<noteq> None"
    using days costs tot adjust_for_budget_keeps_keys[of d1 _ b] by (simp_all add: r_def)
  have v1: "map_of parsed ''daily_itineraries'' = None \<Longrightarrow> map_of r ''daily_itineraries'' = Some (PList [])"
    using days0 adjust_for_budget_empty_days[of d1 b] by (simp add: r_def)
  have v2: "map_of parsed ''cost_breakdown'' = None \<Longrightarrow>
      \<exists>cb. map_of r ''cost_breakdown'' = Some (PDict cb) \<and> zero_costs cb"
    using costs0 adjust_for_budget_zero_costs[of d1 _ b] by (auto simp: r_def)
  have v3: "map_of parsed ''total_estimated_cost'' = None \<Longrightarrow> map_of r ''total_estimated_cost'' = Some (PInt 0)"
    using tot0 adjust_for_budget_zero_total[of d1 b] by (simp add: r_def)
  show ?thesis
    using res k1 k2 k3 v1 v2 v3 by (simp add: dict_get_def)
qed

theorem parse_and_validate_response_keys_witness:
  "parse_and_validate_response sample_world ''Here: {} ok'' (sample_request 2)
     = Inr [(''daily_itineraries'', PList []),
            (''cost_breakdown'', PDict [(''accommodation'', PInt 0), (''meals'', PInt 0),
                                        (''activities'', PInt 0), (''transport'', PInt 0),
                                        (''miscellaneous'', PInt 0)]),
            (''total_estimated_cost'', PInt 0)]"
proof -
  have l: "json_loads sample_world (extract_json ''Here: {} ok'') = Some (PDict [])"
    by (simp add: sample_world_def extract_json_def rfind_char_def)
  have b: "rq_budget (sample_request 2) = Some 6000"
    by (simp add: sample_request_def)
  have t: "\<And>v. dict_get [] ''total_estimated_cost'' = Some v \<Longrightarrow> num_val v \<noteq> None"
    by (simp add: dict_get_def)
  from parse_and_validate_response_keys[OF l b t]
  show ?thesis
    by (simp add: parse_and_validate_response_def l b fill_required_def required_fields_def
          get_default_value_def dict_get_default_def Let_def)
qed

section \<open>Retries\<close>




lemma retry_call_first_success: "attempt k = Inr v \<Longrightarrow> retry_call (Suc n) attempt k = (Inr v, Suc k)"
  by simp







section \<open>Failure of the itinerary generation\<close>



















end
